theory Spec2Isabelle
  imports Complex_Main
begin

section \<open>Numbers and strings of the estimate dashboard\<close>

text \<open>
  The dashboard (\<open>ResultsDashboard\<close>, \<open>PhaseCard\<close>) computes with JavaScript numbers
  and strings. The numbers of an estimate document come out of \<open>JSON.parse\<close> and are
  finite; they are modelled as exact rationals (\<open>rat\<close>), so IEEE-754 rounding and
  overflow are not part of the model. The one non-finite value the dashboard itself
  can produce is \<open>NaN\<close> (from \<open>Number(undefined)\<close> and \<open>Number(".")\<close>); rates and
  costs therefore range over \<open>jsnum\<close>, a rational or \<open>NaN\<close>, with the absorbing
  arithmetic of JavaScript.

  Strings are lists of 8-bit characters and role labels are taken to be ASCII.
  Objects used as dictionaries (\<open>roleRates\<close>, \<open>initialRates\<close>, \<open>breakdownMap\<close>) are
  modelled by their own properties only: keys that name inherited properties of
  \<open>Object.prototype\<close> are outside the model.
\<close>

datatype jsnum = NaN | Fin rat

instantiation jsnum :: "{zero, plus, times}"
begin

definition zero_jsnum :: jsnum where
  "zero_jsnum = Fin 0"

fun plus_jsnum :: "jsnum \<Rightarrow> jsnum \<Rightarrow> jsnum" where
  "plus_jsnum (Fin a) (Fin b) = Fin (a + b)"
| "plus_jsnum _ _ = NaN"

fun times_jsnum :: "jsnum \<Rightarrow> jsnum \<Rightarrow> jsnum" where
  "times_jsnum (Fin a) (Fin b) = Fin (a * b)"
| "times_jsnum _ _ = NaN"

instance ..

end

lemma jsnum_plus_assoc: "x + y + z = x + (y + z)" for x y z :: jsnum
  by (cases x; cases y; cases z) simp_all

lemma jsnum_plus_commute: "x + y = y + x" for x y :: jsnum
  by (cases x; cases y) simp_all

lemma jsnum_zero_plus: "0 + x = x" for x :: jsnum
  by (cases x) (simp_all add: zero_jsnum_def)

instance jsnum :: comm_monoid_add
  by standard (rule jsnum_plus_assoc jsnum_plus_commute jsnum_zero_plus)+

subsection \<open>Role keys\<close>

text \<open>
  \<open>const sanitizeRole = (role: string) => role.replace(/\s+/g, '_').toLowerCase();\<close>

  \<open>isSpace\<close> is the class \<open>\s\<close> on ASCII (tab, line feed, vertical tab, form feed,
  carriage return, space); \<open>replaceSpaces\<close> replaces every maximal run of such
  characters by one underscore, as the global greedy \<open>/\s+/g\<close> does.
\<close>

definition isSpace :: "char \<Rightarrow> bool" where
  "isSpace c = (of_char c \<in> {9, 10, 11, 12, 13, 32 :: nat})"

definition toLowerChar :: "char \<Rightarrow> char" where
  "toLowerChar c =
     (let n = of_char c :: nat in if 65 \<le> n \<and> n \<le> 90 then char_of (n + 32) else c)"

definition toLowerCase :: "string \<Rightarrow> string" where
  "toLowerCase s = map toLowerChar s"

function replaceSpaces :: "string \<Rightarrow> string" where
  "replaceSpaces [] = []"
| "replaceSpaces (c # cs) =
     (if isSpace c then CHR ''_'' # replaceSpaces (dropWhile isSpace cs)
      else c # replaceSpaces cs)"
  by pat_completeness auto
termination
  by (relation "measure length") (auto simp: less_Suc_eq_le length_dropWhile_le)

definition sanitizeRole :: "string \<Rightarrow> string" where
  "sanitizeRole role = toLowerCase (replaceSpaces role)"

section \<open>The estimate document\<close>

text \<open>
  The interfaces of the types module. Field names that occur in more than one
  interface carry a prefix here; all other names are the source's.
\<close>

datatype Complexity = LOW | MEDIUM | HIGH

datatype Impact = Alto | Medio | Bajo

record PhaseTask =
  task_name :: string
  hours :: rat
  cost :: rat
  assignedRole :: string
  hourlyRate :: rat

record PhaseEstimate =
  phase_name :: string
  description :: string
  estimatedHours :: rat
  estimatedCost :: rat
  complexity :: Complexity
  phase_assignedRole :: string
  tasks :: "PhaseTask list"

record Risk =
  risk :: string
  mitigation :: string
  impact :: Impact

record RoleRate =
  rr_role :: string
  rate :: rat
  rr_currency :: string

record CostBreakdownItem =
  cb_role :: string
  cb_totalHours :: rat
  cb_hourlyRate :: rat
  cb_subtotalCost :: rat
  cb_currency :: string

record RoadmapItem =
  phaseName :: string
  startWeek :: rat
  endWeek :: rat
  milestone :: string

record CostRange =
  cost_min :: rat
  cost_max :: rat
  currency :: string

record NumRange =
  range_min :: rat
  range_max :: rat

record EstimationResult =
  projectName :: string
  requesterName :: string
  requestDate :: string
  executiveSummary :: string
  totalEstimatedCost :: CostRange
  totalEstimatedDurationWeeks :: NumRange
  totalEstimatedHours :: NumRange
  hourlyRates :: "RoleRate list"
  costBreakdown :: "CostBreakdownItem list"
  roadmap :: "RoadmapItem list"
  recommendedTechStack :: "string list"
  phases :: "PhaseEstimate list"
  risks :: "Risk list"
  teamComposition :: "string list"

section \<open>The rate store\<close>

text \<open>
  \<open>useState<Record<string, string | number>>({})\<close>: a store entry is a number (as
  the initialisation writes it) or the string the user typed (as an edit writes it).
  A key that is not in the map reads as \<open>undefined\<close>.
\<close>

datatype rate_entry = RNum rat | RStr string

type_synonym rate_store = "string \<rightharpoonup> rate_entry"

subsection \<open>Number(...)\<close>

definition isDigit :: "char \<Rightarrow> bool" where
  "isDigit c = (48 \<le> (of_char c :: nat) \<and> (of_char c :: nat) \<le> 57)"

definition digitsValue :: "string \<Rightarrow> nat" where
  "digitsValue ds = foldl (\<lambda>n c. 10 * n + (of_char c - 48)) 0 ds"

text \<open>
  The conversion of a string to a number, on the strings an edit can store: an empty
  string is \<open>0\<close>; digits with an optional point and optional fraction digits are the
  decimal number they write (\<open>"5."\<close> is 5, \<open>".5"\<close> is 0.5); a lone point is not a
  numeric literal and gives \<open>NaN\<close>. Strings of any other form (signs, exponents,
  surrounding blanks, hexadecimal) are never stored by \<open>handleRateChange\<close>; for them
  the definition returns \<open>NaN\<close> and does not claim to follow JavaScript.
\<close>

definition StringToNumber :: "string \<Rightarrow> jsnum" where
  "StringToNumber s =
     (let ip = takeWhile isDigit s; r = dropWhile isDigit s in
      case r of
        [] \<Rightarrow> Fin (of_nat (digitsValue ip))
      | c # fp \<Rightarrow>
          if c = CHR ''.'' \<and> list_all isDigit fp \<and> (ip \<noteq> [] \<or> fp \<noteq> [])
          then Fin (of_nat (digitsValue ip) + of_nat (digitsValue fp) / 10 ^ length fp)
          else NaN)"

text \<open>\<open>Number(v)\<close> for what a store lookup returns; \<open>Number(undefined)\<close> is \<open>NaN\<close>.\<close>

fun Number :: "rate_entry option \<Rightarrow> jsnum" where
  "Number None = NaN"
| "Number (Some (RNum n)) = Fin n"
| "Number (Some (RStr s)) = StringToNumber s"

text \<open>\<open>x || 0\<close> on a number: \<open>NaN\<close> and \<open>0\<close> are falsy.\<close>

fun orZero :: "jsnum \<Rightarrow> rat" where
  "orZero NaN = 0"
| "orZero (Fin q) = q"

subsection \<open>Initialisation (the effect on \<open>[data]\<close>)\<close>

text \<open>
  \<open>data.costBreakdown.forEach(item => { initialRates[sanitizeRole(item.role)] = item.hourlyRate; });\<close>
  followed by the scan of the tasks, which writes \<open>task.hourlyRate\<close> under the task's
  key when \<open>!initialRates[key]\<close>: the key is missing or its number is falsy (zero).
\<close>

definition falsyRate :: "rat option \<Rightarrow> bool" where
  "falsyRate v = (case v of None \<Rightarrow> True | Some n \<Rightarrow> n = 0)"

definition initFromBreakdown :: "CostBreakdownItem \<Rightarrow> (string \<rightharpoonup> rat) \<Rightarrow> (string \<rightharpoonup> rat)" where
  "initFromBreakdown item initialRates =
     initialRates(sanitizeRole (cb_role item) \<mapsto> cb_hourlyRate item)"

definition initFromTask :: "PhaseTask \<Rightarrow> (string \<rightharpoonup> rat) \<Rightarrow> (string \<rightharpoonup> rat)" where
  "initFromTask task initialRates =
     (let key = sanitizeRole (assignedRole task) in
      if falsyRate (initialRates key) then initialRates(key \<mapsto> hourlyRate task)
      else initialRates)"

definition initialRates :: "EstimationResult \<Rightarrow> (string \<rightharpoonup> rat)" where
  "initialRates data =
     fold (\<lambda>phase. fold initFromTask (tasks phase)) (phases data)
       (fold initFromBreakdown (costBreakdown data) Map.empty)"


subsection \<open>Edits (\<open>handleRateChange\<close>)\<close>




section \<open>The aggregation engine\<close>

text \<open>
  The rate of a task. The source writes the expression three times (in \<open>PhaseCard\<close>,
  in the aggregation and in the HTML export), each time as

  \<open>rawRate !== undefined && rawRate !== '' ? Number(rawRate) : (rawRate === '' ? 0 : task.hourlyRate)\<close>

  with \<open>rawRate = roleRates[sanitizeRole(task.assignedRole)]\<close>.
\<close>

definition effectiveRate :: "rate_store \<Rightarrow> PhaseTask \<Rightarrow> jsnum" where
  "effectiveRate roleRates task =
     (let rawRate = roleRates (sanitizeRole (assignedRole task)) in
      if rawRate \<noteq> None \<and> rawRate \<noteq> Some (RStr [])
      then Number rawRate
      else (if rawRate = Some (RStr []) then Fin 0 else Fin (hourlyRate task)))"

subsection \<open>\<open>PhaseCard\<close>\<close>




subsection \<open>\<open>ResultsDashboard\<close>: the memoised aggregation\<close>

text \<open>
  \<open>breakdownMap\<close> is kept as an association list in insertion order, which is the
  order \<open>Object.values\<close> enumerates keys that are not array indices. The loop body
  over the tasks of a phase is \<open>taskStep\<close>; \<open>phaseStep\<close> is the callback of
  \<open>data.phases.map\<close>, which starts \<open>phaseCost\<close> at 0 and returns the phase with
  \<open>estimatedCost\<close> replaced.
\<close>

record BreakdownEntry =
  be_hours :: rat
  be_cost :: jsnum
  be_role :: string

record AggState =
  phaseCost :: jsnum
  breakdownMap :: "(string \<times> BreakdownEntry) list"
  totalCost :: jsnum
  totalHours :: rat

record ProcessedPhase =
  pp_phase :: PhaseEstimate
  pp_estimatedCost :: jsnum

record BreakdownRow =
  row_role :: string
  row_totalHours :: rat
  row_subtotalCost :: jsnum
  row_hourlyRate :: rat

record TimelineDatum =
  tl_name :: string
  shortName :: string
  tl_hours :: rat

record Aggregates =
  calculatedBreakdown :: "BreakdownRow list"
  totalCalculatedCost :: jsnum
  totalCalculatedHours :: rat
  costByPhase :: "(string \<times> jsnum) list"
  timelineData :: "TimelineDatum list"
  phasesWithDynamicCost :: "ProcessedPhase list"

definition addToEntry :: "string \<Rightarrow> rat \<Rightarrow> jsnum \<Rightarrow> string \<times> BreakdownEntry \<Rightarrow> string \<times> BreakdownEntry" where
  "addToEntry roleKey h c kv =
     (if fst kv = roleKey
      then (fst kv, (snd kv)\<lparr>be_hours := be_hours (snd kv) + h, be_cost := be_cost (snd kv) + c\<rparr>)
      else kv)"

definition taskStep :: "rate_store \<Rightarrow> PhaseTask \<Rightarrow> AggState \<Rightarrow> AggState" where
  "taskStep roleRates task st =
     (let roleKey = sanitizeRole (assignedRole task);
          rate = effectiveRate roleRates task;
          taskCost = Fin (hours task) * rate;
          bm = (if map_of (breakdownMap st) roleKey = None
                then breakdownMap st @
                       [(roleKey, \<lparr>be_hours = 0, be_cost = 0, be_role = assignedRole task\<rparr>)]
                else breakdownMap st)
      in \<lparr>phaseCost = phaseCost st + taskCost,
          breakdownMap = map (addToEntry roleKey (hours task) taskCost) bm,
          totalCost = totalCost st + taskCost,
          totalHours = totalHours st + hours task\<rparr>)"

definition phaseStep :: "rate_store \<Rightarrow> PhaseEstimate \<Rightarrow> AggState \<Rightarrow> ProcessedPhase \<times> AggState" where
  "phaseStep roleRates phase st =
     (let st' = fold (taskStep roleRates) (tasks phase) (st\<lparr>phaseCost := 0\<rparr>)
      in (\<lparr>pp_phase = phase, pp_estimatedCost = phaseCost st'\<rparr>, st'))"

fun processPhases :: "rate_store \<Rightarrow> PhaseEstimate list \<Rightarrow> AggState \<Rightarrow> ProcessedPhase list \<times> AggState" where
  "processPhases roleRates [] st = ([], st)"
| "processPhases roleRates (phase # rest) st =
     (let (p, st1) = phaseStep roleRates phase st;
          (ps, st2) = processPhases roleRates rest st1
      in (p # ps, st2))"

definition breakdownList :: "rate_store \<Rightarrow> (string \<times> BreakdownEntry) list \<Rightarrow> BreakdownRow list" where
  "breakdownList roleRates bm =
     map (\<lambda>(k, item).
            \<lparr>row_role = be_role item,
             row_totalHours = be_hours item,
             row_subtotalCost = be_cost item,
             row_hourlyRate = orZero (Number (roleRates (sanitizeRole (be_role item))))\<rparr>) bm"

text \<open>\<open>const breakdownMap = {}; let totalCost = 0; let totalHours = 0;\<close>\<close>

definition initState :: AggState where
  "initState = \<lparr>phaseCost = 0, breakdownMap = [], totalCost = 0, totalHours = 0\<rparr>"

definition aggregate :: "EstimationResult \<Rightarrow> rate_store \<Rightarrow> Aggregates" where
  "aggregate data roleRates =
     (let (processedPhases, st) = processPhases roleRates (phases data) initState
      in \<lparr>calculatedBreakdown = breakdownList roleRates (breakdownMap st),
          totalCalculatedCost = totalCost st,
          totalCalculatedHours = totalHours st,
          costByPhase = map (\<lambda>p. (phase_name (pp_phase p), pp_estimatedCost p)) processedPhases,
          timelineData =
            map (\<lambda>p. let n = phase_name (pp_phase p) in
                   \<lparr>tl_name = n,
                    shortName = (if length n > 20 then take 20 n @ ''...'' else n),
                    tl_hours = estimatedHours (pp_phase p)\<rparr>) processedPhases,
          phasesWithDynamicCost = processedPhases\<rparr>)"

section \<open>Duration and roadmap\<close>

text \<open>
  \<open>Math.max(x, ...xs)\<close> on at least one finite number. Both call sites that spread a
  list guard it with \<open>data.roadmap.length > 0\<close>, so the list is split into its head
  and tail there.
\<close>

definition mathMax :: "rat \<Rightarrow> rat list \<Rightarrow> rat" where
  "mathMax x xs = fold max xs x"

definition calculatedWeeks :: "EstimationResult \<Rightarrow> rate_store \<Rightarrow> rat" where
  "calculatedWeeks data roleRates =
     (case roadmap data of
        r # rs \<Rightarrow> mathMax (endWeek r) (map endWeek rs)
      | [] \<Rightarrow> of_int \<lceil>totalCalculatedHours (aggregate data roleRates) / 24\<rceil>)"

definition maxDuration :: "EstimationResult \<Rightarrow> rate_store \<Rightarrow> rat" where
  "maxDuration data roleRates =
     mathMax (range_max (totalEstimatedDurationWeeks data))
       [calculatedWeeks data roleRates,
        (case roadmap data of r # rs \<Rightarrow> mathMax (endWeek r) (map endWeek rs) | [] \<Rightarrow> 0)]"

subsection \<open>Bar placement\<close>





section \<open>The timeline grid\<close>

subsection \<open>Calendar dates\<close>

text \<open>
  A local calendar date as \<open>Date\<close> exposes it: \<open>getFullYear()\<close>, \<open>getMonth()\<close>
  (0 to 11) and \<open>getDate()\<close> (from 1).
\<close>

record Date =
  fullYear :: int
  month :: nat
  dayOfMonth :: nat

definition isLeapYear :: "int \<Rightarrow> bool" where
  "isLeapYear y = ((y mod 4 = 0 \<and> y mod 100 \<noteq> 0) \<or> y mod 400 = 0)"

definition daysInMonth :: "int \<Rightarrow> nat \<Rightarrow> nat" where
  "daysInMonth y m =
     (if m = 1 then (if isLeapYear y then 29 else 28)
      else if m = 3 \<or> m = 5 \<or> m = 8 \<or> m = 10 then 30 else 31)"

definition firstOfNextMonth :: "Date \<Rightarrow> Date" where
  "firstOfNextMonth d =
     (if month d \<ge> 11 then \<lparr>fullYear = fullYear d + 1, month = 0, dayOfMonth = 1\<rparr>
      else \<lparr>fullYear = fullYear d, month = month d + 1, dayOfMonth = 1\<rparr>)"

text \<open>
  \<open>date.setDate(n)\<close> for \<open>n \<ge> 1\<close>: a day number past the end of the month runs
  over into the following months. The grid only calls it with
  \<open>projectStartDate.getDate() + (w - 1) * 7\<close>, which is at least 1.
\<close>

function setDate :: "Date \<Rightarrow> nat \<Rightarrow> Date" where
  "setDate d n =
     (if n > daysInMonth (fullYear d) (month d)
      then setDate (firstOfNextMonth d) (n - daysInMonth (fullYear d) (month d))
      else d\<lparr>dayOfMonth := n\<rparr>)"
  by pat_completeness auto
termination
  by (relation "measure snd") (auto simp: daysInMonth_def)

text \<open>
  \<open>new Date(now.getFullYear(), now.getMonth() + 1, 1)\<close>: a month index of 12 is January
  of the next year.
\<close>

definition projectStartDate :: "Date \<Rightarrow> Date" where
  "projectStartDate now =
     \<lparr>fullYear = fullYear now + int ((month now + 1) div 12),
      month = (month now + 1) mod 12,
      dayOfMonth = 1\<rparr>"

subsection \<open>Month labels\<close>

text \<open>
  \<open>date.toLocaleDateString('es-ES', { month: 'long', year: 'numeric' })\<close> is the
  platform's; the grid builder takes it as the parameter \<open>formatMonth\<close>. \<open>formatMonthEs\<close>
  is the label current engines print for years from 0 on, used where a concrete
  function is needed.
\<close>

function showNat :: "nat \<Rightarrow> string" where
  "showNat n =
     (if n < 10 then [char_of (48 + n)]
      else showNat (n div 10) @ [char_of (48 + n mod 10)])"
  by pat_completeness auto
termination
  by (relation "measure id") auto

definition monthNames :: "string list" where
  "monthNames =
     [''enero'', ''febrero'', ''marzo'', ''abril'', ''mayo'', ''junio'', ''julio'',
      ''agosto'', ''septiembre'', ''octubre'', ''noviembre'', ''diciembre'']"

definition formatMonthEs :: "Date \<Rightarrow> string" where
  "formatMonthEs d = monthNames ! (month d mod 12) @ '' de '' @ showNat (nat (fullYear d))"

subsection \<open>\<open>timelineGroups\<close>\<close>

record TimelineGroup =
  monthLabel :: string
  weeks :: "nat list"

definition pushGroup :: "string \<Rightarrow> nat list \<Rightarrow> TimelineGroup list \<Rightarrow> TimelineGroup list" where
  "pushGroup currentMonthLabel currentWeekList groups =
     (if length currentWeekList > 0
      then groups @ [\<lparr>monthLabel = currentMonthLabel, weeks = currentWeekList\<rparr>]
      else groups)"

definition weekStartDate :: "Date \<Rightarrow> nat \<Rightarrow> Date" where
  "weekStartDate start w = setDate start (dayOfMonth start + (w - 1) * 7)"

text \<open>
  The loop \<open>for (let w = 1; w <= maxDuration; w++)\<close> with its three variables
  \<open>currentMonthLabel\<close>, \<open>currentWeekList\<close> and \<open>groups\<close>, and the push after it.
\<close>

function timelineLoop ::
  "(Date \<Rightarrow> string) \<Rightarrow> rat \<Rightarrow> Date \<Rightarrow> nat \<Rightarrow> string \<Rightarrow> nat list \<Rightarrow> TimelineGroup list
     \<Rightarrow> TimelineGroup list" where
  "timelineLoop formatMonth maxDur start w currentMonthLabel currentWeekList groups =
     (if of_nat w \<le> maxDur then
        (let label = formatMonth (weekStartDate start w) in
         if label \<noteq> currentMonthLabel
         then timelineLoop formatMonth maxDur start (w + 1) label [w]
                (pushGroup currentMonthLabel currentWeekList groups)
         else timelineLoop formatMonth maxDur start (w + 1) currentMonthLabel
                (currentWeekList @ [w]) groups)
      else pushGroup currentMonthLabel currentWeekList groups)"
  by pat_completeness auto
termination
proof -
  have below: "nat \<lfloor>m\<rfloor> - w < Suc (nat \<lfloor>m\<rfloor>) - w" if "rat_of_nat w \<le> m" for w m
  proof -
    from that have "int w \<le> \<lfloor>m\<rfloor>"
      by (simp add: le_floor_iff)
    then show ?thesis
      by linarith
  qed
  show ?thesis
    by (relation "measure (\<lambda>(f, maxDur, start, w, l, ws, gs). nat \<lfloor>maxDur\<rfloor> + 1 - w)")
       (auto simp: below)
qed

definition timelineGroups :: "(Date \<Rightarrow> string) \<Rightarrow> rat \<Rightarrow> Date \<Rightarrow> TimelineGroup list" where
  "timelineGroups formatMonth maxDur start = timelineLoop formatMonth maxDur start 1 [] [] []"

section \<open>The application shell\<close>

datatype AppState = StInput | StAnalyzing | StResult | StError

record App =
  appState :: AppState
  result :: "EstimationResult option"
  errorMsg :: "string option"






definition handleReset :: "App \<Rightarrow> App" where
  "handleReset app = app\<lparr>appState := StInput, result := None, errorMsg := None\<rparr>"

section \<open>Reference notions\<close>






text \<open>
  The cost of one task, \<open>task.hours * rate\<close>, and the sum of the costs held in a
  breakdown map.
\<close>

definition taskCost :: "rate_store \<Rightarrow> PhaseTask \<Rightarrow> jsnum" where
  "taskCost roleRates task = Fin (hours task) * effectiveRate roleRates task"



text \<open>
  A date of the calendar, the day after a date, and what the grid builder leaves
  behind in every group: some weeks, each labelled by the month of its start date.
\<close>

definition validDate :: "Date \<Rightarrow> bool" where
  "validDate d = (month d < 12 \<and> 1 \<le> dayOfMonth d \<and> dayOfMonth d \<le> daysInMonth (fullYear d) (month d))"

definition nextDay :: "Date \<Rightarrow> Date" where
  "nextDay d =
     (if dayOfMonth d < daysInMonth (fullYear d) (month d)
      then d\<lparr>dayOfMonth := dayOfMonth d + 1\<rparr>
      else firstOfNextMonth d)"

definition groupOk :: "(Date \<Rightarrow> string) \<Rightarrow> Date \<Rightarrow> TimelineGroup \<Rightarrow> bool" where
  "groupOk f start g =
     (weeks g \<noteq> [] \<and> (\<forall>w \<in> set (weeks g). monthLabel g = f (weekStartDate start w)))"

section \<open>An example document\<close>

text \<open>
  Two phases with four tasks; one task writes its role as \<open>back-end  developer\<close>. The
  cost breakdown lists two of the three roles, the role-rate list a fourth one, and
  the roadmap has two phases in parallel.
\<close>

definition wireframes :: PhaseTask where
  "wireframes = \<lparr>task_name = ''Wireframes'', hours = 8, cost = 360,
     assignedRole = ''UI/UX Designer'', hourlyRate = 45\<rparr>"

definition restApi :: PhaseTask where
  "restApi = \<lparr>task_name = ''REST API'', hours = 10, cost = 550,
     assignedRole = ''Back-end Developer'', hourlyRate = 55\<rparr>"

definition screens :: PhaseTask where
  "screens = \<lparr>task_name = ''Screens'', hours = 12, cost = 600,
     assignedRole = ''Front-end Developer'', hourlyRate = 50\<rparr>"

definition dataModel :: PhaseTask where
  "dataModel = \<lparr>task_name = ''Data model'', hours = 6, cost = 330,
     assignedRole = ''back-end  developer'', hourlyRate = 55\<rparr>"

definition designPhase :: PhaseEstimate where
  "designPhase = \<lparr>phase_name = ''Design'', description = ''Design'', estimatedHours = 8,
     estimatedCost = 360, complexity = LOW, phase_assignedRole = ''UI/UX Designer'',
     tasks = [wireframes]\<rparr>"

definition buildPhase :: PhaseEstimate where
  "buildPhase = \<lparr>phase_name = ''Build'', description = ''Build'', estimatedHours = 28,
     estimatedCost = 1480, complexity = HIGH, phase_assignedRole = ''Back-end Developer'',
     tasks = [restApi, screens, dataModel]\<rparr>"

definition exampleRoadmap :: "RoadmapItem list" where
  "exampleRoadmap =
     [\<lparr>phaseName = ''Design'', startWeek = 1, endWeek = 2, milestone = ''M1''\<rparr>,
      \<lparr>phaseName = ''Backend'', startWeek = 3, endWeek = 6, milestone = ''M2''\<rparr>,
      \<lparr>phaseName = ''Frontend'', startWeek = 3, endWeek = 6, milestone = ''M3''\<rparr>,
      \<lparr>phaseName = ''QA'', startWeek = 7, endWeek = 8, milestone = ''M4''\<rparr>]"

definition exampleDoc :: EstimationResult where
  "exampleDoc =
     \<lparr>projectName = ''DogWalk App'', requesterName = ''Juan'', requestDate = ''2025-03-01'',
      executiveSummary = ''Summary'',
      totalEstimatedCost = \<lparr>cost_min = 1500, cost_max = 2000, currency = ''USD''\<rparr>,
      totalEstimatedDurationWeeks = \<lparr>range_min = 6, range_max = 8\<rparr>,
      totalEstimatedHours = \<lparr>range_min = 30, range_max = 40\<rparr>,
      hourlyRates = [\<lparr>rr_role = ''QA Engineer'', rate = 40, rr_currency = ''USD''\<rparr>],
      costBreakdown =
        [\<lparr>cb_role = ''UI/UX Designer'', cb_totalHours = 8, cb_hourlyRate = 45,
          cb_subtotalCost = 360, cb_currency = ''USD''\<rparr>,
         \<lparr>cb_role = ''Back-end Developer'', cb_totalHours = 16, cb_hourlyRate = 55,
          cb_subtotalCost = 880, cb_currency = ''USD''\<rparr>],
      roadmap = exampleRoadmap,
      recommendedTechStack = [''Node.js''],
      phases = [designPhase, buildPhase],
      risks = [],
      teamComposition = [''1 Back-end Developer'']\<rparr>"

text \<open>A store in which one role has been edited to \<open>70\<close> and no other key is set.\<close>

definition exampleStore :: rate_store where
  "exampleStore = [''back-end_developer'' \<mapsto> RStr ''70'']"




text \<open>
  A day in February 2025 as the current date; an application that shows the example
  document; an environment without a key and one whose answer is not JSON.
\<close>

definition midFebruary :: Date where
  "midFebruary = \<lparr>fullYear = 2025, month = 1, dayOfMonth = 14\<rparr>"





section \<open>Properties of the role keys\<close>

lemma isSpace_toLowerChar: "isSpace (toLowerChar c) = isSpace c"
  by (auto simp: isSpace_def toLowerChar_def Let_def)

lemma toLowerChar_idem: "toLowerChar (toLowerChar c) = toLowerChar c"
  by (auto simp: toLowerChar_def Let_def)

lemma toLowerChar_underscore: "toLowerChar CHR ''_'' = CHR ''_''"
  by (simp add: toLowerChar_def)

lemma not_isSpace_underscore: "\<not> isSpace CHR ''_''"
  by (simp add: isSpace_def)

lemma dropWhile_isSpace_lower:
  "dropWhile isSpace (map toLowerChar cs) = map toLowerChar (dropWhile isSpace cs)"
  by (induction cs) (simp_all add: isSpace_toLowerChar)

lemma replaceSpaces_toLowerCase:
  "replaceSpaces (toLowerCase s) = toLowerCase (replaceSpaces s)"
  unfolding toLowerCase_def
  by (induction s rule: replaceSpaces.induct)
     (simp_all add: isSpace_toLowerChar dropWhile_isSpace_lower toLowerChar_underscore)

lemma replaceSpaces_no_space: "x \<in> set (replaceSpaces s) \<Longrightarrow> \<not> isSpace x"
proof (induction s rule: replaceSpaces.induct)
  case 1
  then show ?case by simp
next
  case (2 c cs)
  show ?case
  proof (cases "isSpace c")
    case True
    with 2(3) have "x = CHR ''_'' \<or> x \<in> set (replaceSpaces (dropWhile isSpace cs))"
      by simp
    with 2(1) True show ?thesis
      using not_isSpace_underscore by blast
  next
    case False
    with 2(3) have "x = c \<or> x \<in> set (replaceSpaces cs)"
      by simp
    with 2(2) False show ?thesis
      by blast
  qed
qed

lemma replaceSpaces_id: "\<forall>c \<in> set s. \<not> isSpace c \<Longrightarrow> replaceSpaces s = s"
  by (induction s) simp_all

lemma replaceSpaces_idem: "replaceSpaces (replaceSpaces s) = replaceSpaces s"
  by (rule replaceSpaces_id) (simp add: replaceSpaces_no_space)

lemma toLowerCase_idem: "toLowerCase (toLowerCase s) = toLowerCase s"
  by (simp add: toLowerCase_def toLowerChar_idem)

lemma sanitizeRole_idem: "sanitizeRole (sanitizeRole r) = sanitizeRole r"
  by (simp add: sanitizeRole_def replaceSpaces_toLowerCase replaceSpaces_idem toLowerCase_idem)

lemma sanitizeRole_toLowerCase: "sanitizeRole (toLowerCase r) = sanitizeRole r"
  by (simp add: sanitizeRole_def replaceSpaces_toLowerCase toLowerCase_idem)

lemma replaceSpaces_run:
  assumes "u \<noteq> []" "list_all isSpace u"
  shows "replaceSpaces (u @ b) = CHR ''_'' # replaceSpaces (dropWhile isSpace b)"
  using assms by (cases u) (simp_all add: dropWhile_append list_all_iff)

lemma replaceSpaces_runs:
  assumes "u \<noteq> []" "list_all isSpace u" "v \<noteq> []" "list_all isSpace v"
  shows "replaceSpaces (a @ u @ b) = replaceSpaces (a @ v @ b)"
proof (induction a rule: replaceSpaces.induct)
  case 1
  show ?case using assms by (simp add: replaceSpaces_run)
next
  case (2 c cs)
  show ?case
  proof (cases "isSpace c")
    case False
    with 2 show ?thesis by simp
  next
    case True
    show ?thesis
    proof (cases "\<forall>x \<in> set cs. isSpace x")
      case True
      with \<open>isSpace c\<close> assms show ?thesis
        by (simp add: dropWhile_append list_all_iff)
    next
      case False
      then obtain x where "x \<in> set cs" "\<not> isSpace x"
        by blast
      then have d: "dropWhile isSpace (cs @ w @ b) = dropWhile isSpace cs @ w @ b" for w
        by (rule dropWhile_append1)
      from \<open>isSpace c\<close> 2(1) show ?thesis
        by (simp add: d)
    qed
  qed
qed

text \<open>
  Claim C4, as stated: normalisation is idempotent and injective, so that any two
  distinct role labels get distinct keys. The second half does not hold: the labels
  \<open>QA Engineer\<close> and \<open>QA_Engineer\<close> are distinct and share the key \<open>qa_engineer\<close>.
\<close>

theorem sanitizeRole_not_injective:
  "''QA Engineer'' \<noteq> ''QA_Engineer'' \<and>
   sanitizeRole ''QA Engineer'' = sanitizeRole ''QA_Engineer''"
  by code_simp

text \<open>
  Claim C4, amended: normalisation is idempotent, and it identifies labels that differ
  only in letter case or in the blanks that make up a run of white space; it is not
  injective.
\<close>

theorem sanitizeRole_idempotent_insensitive:
  "sanitizeRole (sanitizeRole r) = sanitizeRole r \<and>
   (toLowerCase r1 = toLowerCase r2 \<longrightarrow> sanitizeRole r1 = sanitizeRole r2) \<and>
   (u \<noteq> [] \<and> list_all isSpace u \<and> v \<noteq> [] \<and> list_all isSpace v \<longrightarrow>
      sanitizeRole (a @ u @ b) = sanitizeRole (a @ v @ b))"
proof (intro conjI impI)
  show "sanitizeRole (sanitizeRole r) = sanitizeRole r"
    by (rule sanitizeRole_idem)
next
  assume "toLowerCase r1 = toLowerCase r2"
  then have "sanitizeRole (toLowerCase r1) = sanitizeRole (toLowerCase r2)"
    by simp
  then show "sanitizeRole r1 = sanitizeRole r2"
    by (simp add: sanitizeRole_toLowerCase)
next
  assume "u \<noteq> [] \<and> list_all isSpace u \<and> v \<noteq> [] \<and> list_all isSpace v"
  then have "replaceSpaces (a @ u @ b) = replaceSpaces (a @ v @ b)"
    by (simp add: replaceSpaces_runs)
  then show "sanitizeRole (a @ u @ b) = sanitizeRole (a @ v @ b)"
    by (simp add: sanitizeRole_def)
qed

theorem sanitizeRole_idempotent_insensitive_witness:
  "sanitizeRole (sanitizeRole ''QA  Engineer'') = sanitizeRole ''QA  Engineer'' \<and>
   toLowerCase ''QA Engineer'' = toLowerCase ''qa engineer'' \<and>
   sanitizeRole ''QA Engineer'' = sanitizeRole ''qa engineer'' \<and>
   list_all isSpace ''  '' \<and> list_all isSpace '' '' \<and>
   sanitizeRole (''QA'' @ ''  '' @ ''Engineer'') = sanitizeRole (''QA'' @ '' '' @ ''Engineer'') \<and>
   sanitizeRole ''QA  Engineer'' = ''qa_engineer''"
proof -
  have c: "toLowerCase ''QA Engineer'' = toLowerCase ''qa engineer''"
    by code_simp
  have s: "''  '' \<noteq> [] \<and> list_all isSpace ''  '' \<and> '' '' \<noteq> [] \<and> list_all isSpace '' ''"
    by code_simp
  have k: "sanitizeRole ''QA  Engineer'' = ''qa_engineer''"
    by code_simp
  note t =
    sanitizeRole_idempotent_insensitive
      [of "''QA  Engineer''" "''QA Engineer''" "''qa engineer''" "''  ''" "'' ''" "''QA''"
          "''Engineer''"]
  from t have i: "sanitizeRole (sanitizeRole ''QA  Engineer'') = sanitizeRole ''QA  Engineer''"
    by (rule conjunct1)
  from t c have l: "sanitizeRole ''QA Engineer'' = sanitizeRole ''qa engineer''"
    by blast
  from t s have
    w: "sanitizeRole (''QA'' @ ''  '' @ ''Engineer'') = sanitizeRole (''QA'' @ '' '' @ ''Engineer'')"
    by blast
  from i c l s w k show ?thesis
    by blast
qed

section \<open>Properties of the aggregation\<close>





















lemma aggregate_fields:
  "phasesWithDynamicCost (aggregate data roleRates) = fst (processPhases roleRates (phases data) initState)"
  "totalCalculatedCost (aggregate data roleRates) = totalCost (snd (processPhases roleRates (phases data) initState))"
  "totalCalculatedHours (aggregate data roleRates) = totalHours (snd (processPhases roleRates (phases data) initState))"
  "calculatedBreakdown (aggregate data roleRates) =
     breakdownList roleRates (breakdownMap (snd (processPhases roleRates (phases data) initState)))"
  by (simp_all add: aggregate_def initState_def case_prod_beta)








subsection \<open>The example document under the example store\<close>

lemma key_uiux: "sanitizeRole ''UI/UX Designer'' = ''ui/ux_designer''" by code_simp
lemma key_backend: "sanitizeRole ''Back-end Developer'' = ''back-end_developer''" by code_simp
lemma key_frontend: "sanitizeRole ''Front-end Developer'' = ''front-end_developer''" by code_simp
lemma key_backend2: "sanitizeRole ''back-end  developer'' = ''back-end_developer''" by code_simp
lemma number_70: "StringToNumber ''70'' = Fin 70" by code_simp

lemmas example_keys = key_uiux key_backend key_frontend key_backend2
lemmas example_defs = exampleDoc_def designPhase_def buildPhase_def wireframes_def restApi_def
  screens_def dataModel_def exampleRoadmap_def
lemmas aggregate_defs = aggregate_def initState_def phaseStep_def taskStep_def effectiveRate_def
  addToEntry_def breakdownList_def Let_def zero_jsnum_def

lemma example_aggregate:
  "aggregate exampleDoc exampleStore =
    \<lparr>calculatedBreakdown =
       [\<lparr>row_role = ''UI/UX Designer'', row_totalHours = 8, row_subtotalCost = Fin 360,
         row_hourlyRate = 0\<rparr>,
        \<lparr>row_role = ''Back-end Developer'', row_totalHours = 16, row_subtotalCost = Fin 1120,
         row_hourlyRate = 70\<rparr>,
        \<lparr>row_role = ''Front-end Developer'', row_totalHours = 12, row_subtotalCost = Fin 600,
         row_hourlyRate = 0\<rparr>],
      totalCalculatedCost = Fin 2080,
      totalCalculatedHours = 36,
      costByPhase = [(''Design'', Fin 360), (''Build'', Fin 1720)],
      timelineData =
        [\<lparr>tl_name = ''Design'', shortName = ''Design'', tl_hours = 8\<rparr>,
         \<lparr>tl_name = ''Build'', shortName = ''Build'', tl_hours = 28\<rparr>],
      phasesWithDynamicCost =
        [\<lparr>pp_phase = designPhase, pp_estimatedCost = Fin 360\<rparr>,
         \<lparr>pp_phase = buildPhase, pp_estimatedCost = Fin 1720\<rparr>]\<rparr>"
  by (simp add: aggregate_defs example_defs example_keys exampleStore_def number_70)

subsection \<open>Sum consistency\<close>



section \<open>Properties of the rates\<close>



subsection \<open>The rate column of the role breakdown\<close>

text \<open>
  Claim C10: the rate a breakdown row reports is \<open>Number\<close> of the store entry of
  the row's key when that is a number other than 0, and 0 otherwise, in particular
  when the key is not in the store; and there are a document, a store and a row with
  an unset key whose subtotal differs from hours times the reported rate.
\<close>

theorem breakdown_rate:
  "(\<forall>row \<in> set (calculatedBreakdown (aggregate data roleRates)).
      (\<forall>q. Number (roleRates (sanitizeRole (row_role row))) = Fin q \<and> q \<noteq> 0 \<longrightarrow>
         row_hourlyRate row = q) \<and>
      (Number (roleRates (sanitizeRole (row_role row))) = NaN \<or>
       Number (roleRates (sanitizeRole (row_role row))) = Fin 0 \<longrightarrow>
         row_hourlyRate row = 0) \<and>
      (roleRates (sanitizeRole (row_role row)) = None \<longrightarrow> row_hourlyRate row = 0)) \<and>
   (\<exists>data' roleRates' row.
      row \<in> set (calculatedBreakdown (aggregate data' roleRates')) \<and>
      roleRates' (sanitizeRole (row_role row)) = None \<and>
      row_hourlyRate row = 0 \<and>
      row_subtotalCost row \<noteq> Fin (row_totalHours row * row_hourlyRate row))"
proof (intro conjI ballI)
  fix row
  assume "row \<in> set (calculatedBreakdown (aggregate data roleRates))"
  then have r: "row_hourlyRate row = orZero (Number (roleRates (sanitizeRole (row_role row))))"
    by (auto simp: aggregate_fields breakdownList_def)
  show "\<forall>q. Number (roleRates (sanitizeRole (row_role row))) = Fin q \<and> q \<noteq> 0 \<longrightarrow>
         row_hourlyRate row = q"
    by (simp add: r)
  show "Number (roleRates (sanitizeRole (row_role row))) = NaN \<or>
       Number (roleRates (sanitizeRole (row_role row))) = Fin 0 \<longrightarrow>
         row_hourlyRate row = 0"
    by (auto simp: r)
  show "roleRates (sanitizeRole (row_role row)) = None \<longrightarrow> row_hourlyRate row = 0"
    by (simp add: r)
next
  let ?row = "\<lparr>row_role = ''UI/UX Designer'', row_totalHours = 8, row_subtotalCost = Fin 360,
         row_hourlyRate = 0\<rparr>"
  have "?row \<in> set (calculatedBreakdown (aggregate exampleDoc exampleStore))"
    by (simp add: example_aggregate)
  moreover have "exampleStore (sanitizeRole (row_role ?row)) = None"
    by (simp add: key_uiux exampleStore_def)
  moreover have "row_hourlyRate ?row = 0"
    by simp
  moreover have "row_subtotalCost ?row \<noteq> Fin (row_totalHours ?row * row_hourlyRate ?row)"
    by simp
  ultimately show "\<exists>data' roleRates' row.
      row \<in> set (calculatedBreakdown (aggregate data' roleRates')) \<and>
      roleRates' (sanitizeRole (row_role row)) = None \<and>
      row_hourlyRate row = 0 \<and>
      row_subtotalCost row \<noteq> Fin (row_totalHours row * row_hourlyRate row)"
    by blast
qed

text \<open>
  In the example the edited role reports 70; a role without a store entry reports 0
  next to a subtotal of 360.
\<close>

theorem breakdown_rate_witness:
  "\<lparr>row_role = ''Back-end Developer'', row_totalHours = 16,
      row_subtotalCost = Fin 1120, row_hourlyRate = 70\<rparr>
     \<in> set (calculatedBreakdown (aggregate exampleDoc exampleStore)) \<and>
   Number (exampleStore (sanitizeRole ''Back-end Developer'')) = Fin 70 \<and>
   \<lparr>row_role = ''UI/UX Designer'', row_totalHours = 8,
      row_subtotalCost = Fin 360, row_hourlyRate = 0\<rparr>
     \<in> set (calculatedBreakdown (aggregate exampleDoc exampleStore)) \<and>
   exampleStore (sanitizeRole ''UI/UX Designer'') = None"
proof -
  let ?b = "\<lparr>row_role = ''Back-end Developer'', row_totalHours = 16,
      row_subtotalCost = Fin 1120, row_hourlyRate = 70\<rparr>"
  let ?u = "\<lparr>row_role = ''UI/UX Designer'', row_totalHours = 8,
      row_subtotalCost = Fin 360, row_hourlyRate = 0\<rparr>"
  note t = breakdown_rate[of exampleDoc exampleStore]
  have mb: "?b \<in> set (calculatedBreakdown (aggregate exampleDoc exampleStore))"
    and mu: "?u \<in> set (calculatedBreakdown (aggregate exampleDoc exampleStore))"
    by (simp_all add: example_aggregate)
  have nb: "Number (exampleStore (sanitizeRole ''Back-end Developer'')) = Fin 70"
    by (simp add: key_backend exampleStore_def number_70)
  have nu: "exampleStore (sanitizeRole ''UI/UX Designer'') = None"
    by (simp add: key_uiux exampleStore_def)
  from t mb have "\<forall>q. Number (exampleStore (sanitizeRole (row_role ?b))) = Fin q \<and> q \<noteq> 0 \<longrightarrow>
         row_hourlyRate ?b = q"
    by blast
  with nb have b: "row_hourlyRate ?b = 70"
    by simp
  from t mu have "exampleStore (sanitizeRole (row_role ?u)) = None \<longrightarrow> row_hourlyRate ?u = 0"
    by blast
  with nu have u: "row_hourlyRate ?u = 0"
    by simp
  from b u mb mu nb nu show ?thesis
    by blast
qed

section \<open>Properties of the duration and the roadmap bars\<close>


lemma aggregate_roadmap_update [simp]: "aggregate (data\<lparr>roadmap := r\<rparr>) roleRates = aggregate data roleRates"
  by (simp add: aggregate_def)







subsection \<open>Degenerate intervals\<close>




section \<open>Properties of the rate store\<close>

subsection \<open>Edits\<close>














subsection \<open>Initialisation\<close>






















section \<open>Properties of the timeline grid\<close>

declare timelineLoop.simps [simp del]
declare setDate.simps [simp del]

lemma weeks_pushGroup:
  "concat (map weeks (pushGroup l ws gs)) = concat (map weeks gs) @ ws"
  by (simp add: pushGroup_def)

lemma not_le_floor:
  assumes "\<not> rat_of_nat w \<le> m" "1 \<le> w"
  shows "Suc (nat \<lfloor>m\<rfloor>) \<le> w"
proof -
  from assms(1) have "\<lfloor>m\<rfloor> < int w"
    by (simp add: floor_less_iff not_le)
  with assms(2) show ?thesis
    by linarith
qed

lemma le_floor:
  assumes "rat_of_nat w \<le> m"
  shows "w < Suc (nat \<lfloor>m\<rfloor>)"
proof -
  from assms have "int w \<le> \<lfloor>m\<rfloor>"
    by (simp add: le_floor_iff)
  then show ?thesis
    by linarith
qed

lemma timelineLoop_weeks:
  "1 \<le> w \<Longrightarrow>
   concat (map weeks (timelineLoop f m start w l ws gs)) =
     concat (map weeks gs) @ ws @ [w ..< Suc (nat \<lfloor>m\<rfloor>)]"
proof (induction f m start w l ws gs rule: timelineLoop.induct)
  case (1 f m start w l ws gs)
  show ?case
  proof (cases "of_nat w \<le> m")
    case False
    with 1(3) have "[w ..< Suc (nat \<lfloor>m\<rfloor>)] = []"
      using not_le_floor[of w m] by (simp del: upt_Suc)
    with False show ?thesis
      by (subst timelineLoop.simps) (simp add: weeks_pushGroup del: upt_Suc)
  next
    case True
    then have u: "[w ..< Suc (nat \<lfloor>m\<rfloor>)] = w # [Suc w ..< Suc (nat \<lfloor>m\<rfloor>)]"
      using le_floor[of w m] by (simp add: upt_conv_Cons del: upt_Suc)
    show ?thesis
    proof (cases "f (weekStartDate start w) \<noteq> l")
      case True
      from 1(1)[OF \<open>of_nat w \<le> m\<close> refl True] \<open>of_nat w \<le> m\<close> True show ?thesis
        by (subst timelineLoop.simps) (simp add: weeks_pushGroup u Let_def del: upt_Suc)
    next
      case False
      from 1(2)[OF \<open>of_nat w \<le> m\<close> refl False] \<open>of_nat w \<le> m\<close> False show ?thesis
        by (subst timelineLoop.simps) (simp add: u Let_def del: upt_Suc)
    qed
  qed
qed

lemma groupOk_pushGroup:
  "\<forall>g \<in> set gs. groupOk f start g \<Longrightarrow> \<forall>w \<in> set ws. l = f (weekStartDate start w) \<Longrightarrow>
   \<forall>g \<in> set (pushGroup l ws gs). groupOk f start g"
  by (auto simp: pushGroup_def groupOk_def)

lemma timelineLoop_labels:
  "\<forall>g \<in> set gs. groupOk f start g \<Longrightarrow> \<forall>v \<in> set ws. l = f (weekStartDate start v) \<Longrightarrow>
   \<forall>g \<in> set (timelineLoop f m start w l ws gs). groupOk f start g"
proof (induction f m start w l ws gs rule: timelineLoop.induct)
  case (1 f m start w l ws gs)
  have p: "\<forall>g \<in> set (pushGroup l ws gs). groupOk f start g"
    using 1(3,4) by (rule groupOk_pushGroup)
  show ?case
  proof (cases "of_nat w \<le> m")
    case False
    with p show ?thesis
      by (subst timelineLoop.simps) simp
  next
    case True
    show ?thesis
    proof (cases "f (weekStartDate start w) \<noteq> l")
      case True
      have "\<forall>g\<in>set (timelineLoop f m start (w + 1) (f (weekStartDate start w)) [w]
                (pushGroup l ws gs)). groupOk f start g"
        using \<open>of_nat w \<le> m\<close> refl True p by (rule 1(1)) simp
      with \<open>of_nat w \<le> m\<close> True show ?thesis
        by (subst timelineLoop.simps) (simp add: Let_def)
    next
      case False
      have "\<forall>g\<in>set (timelineLoop f m start (w + 1) l (ws @ [w]) gs). groupOk f start g"
        using \<open>of_nat w \<le> m\<close> refl False 1(3) by (rule 1(2)) (use 1(4) False in auto)
      with \<open>of_nat w \<le> m\<close> False show ?thesis
        by (subst timelineLoop.simps) (simp add: Let_def)
    qed
  qed
qed

lemma setDate_day: "setDate (d\<lparr>dayOfMonth := x\<rparr>) n = setDate d n"
  by (subst (1 2) setDate.simps) (simp add: firstOfNextMonth_def)

lemma validDate_nextDay: "validDate d \<Longrightarrow> validDate (nextDay d)"
  by (auto simp: validDate_def nextDay_def firstOfNextMonth_def daysInMonth_def)

lemma setDate_funpow:
  "validDate d \<Longrightarrow> setDate d (dayOfMonth d + k) = (nextDay ^^ k) d"
proof (induction k arbitrary: d)
  case 0
  then show ?case
    by (subst setDate.simps) (simp add: validDate_def)
next
  case (Suc k)
  show ?case
  proof (cases "dayOfMonth d < daysInMonth (fullYear d) (month d)")
    case True
    let ?d = "d\<lparr>dayOfMonth := dayOfMonth d + 1\<rparr>"
    have n: "nextDay d = ?d"
      using True by (simp add: nextDay_def)
    have "validDate ?d"
      using validDate_nextDay[OF Suc.prems] n by simp
    then have "setDate ?d (dayOfMonth ?d + k) = (nextDay ^^ k) ?d"
      by (rule Suc.IH)
    then show ?thesis
      by (simp add: setDate_day n funpow_swap1)
  next
    case False
    with Suc.prems have e: "dayOfMonth d = daysInMonth (fullYear d) (month d)"
      by (simp add: validDate_def)
    let ?d = "firstOfNextMonth d"
    have n: "nextDay d = ?d"
      using False by (simp add: nextDay_def)
    have one: "dayOfMonth ?d = 1"
      by (simp add: firstOfNextMonth_def)
    have "validDate ?d"
      using validDate_nextDay[OF Suc.prems] n by simp
    then have "setDate ?d (dayOfMonth ?d + k) = (nextDay ^^ k) ?d"
      by (rule Suc.IH)
    moreover have "setDate d (dayOfMonth d + Suc k) = setDate ?d (Suc k)"
      by (subst setDate.simps) (simp add: e)
    ultimately show ?thesis
      by (simp add: one n funpow_swap1)
  qed
qed

text \<open>
  Claim C7: for every duration, anchor date and label function, the week lists of
  the groups, one after the other, are exactly the weeks from 1 up to the duration
  (up to its integer part when it is not whole), each once and in increasing order;
  no group is empty, and every week of a group starts in the month the group is
  labelled with, where week \<open>w\<close> starts \<open>(w - 1) * 7\<close> days after the anchor.
\<close>

theorem timeline_grid:
  "concat (map weeks (timelineGroups formatMonth maxDur start)) = [1 ..< Suc (nat \<lfloor>maxDur\<rfloor>)] \<and>
   concat (map weeks (timelineGroups formatMonth (of_nat n) start)) = [1 ..< Suc n] \<and>
   (\<forall>g \<in> set (timelineGroups formatMonth maxDur start).
      weeks g \<noteq> [] \<and>
      (\<forall>w \<in> set (weeks g). monthLabel g = formatMonth (weekStartDate start w))) \<and>
   (validDate start \<longrightarrow> weekStartDate start w = (nextDay ^^ ((w - 1) * 7)) start)"
proof -
  have a: "concat (map weeks (timelineGroups formatMonth m start)) = [1 ..< Suc (nat \<lfloor>m\<rfloor>)]" for m
    using timelineLoop_weeks[of 1 formatMonth m start "[]" "[]" "[]"]
    by (simp add: timelineGroups_def del: upt_Suc)
  have b: "\<forall>g \<in> set (timelineGroups formatMonth maxDur start). groupOk formatMonth start g"
    unfolding timelineGroups_def by (rule timelineLoop_labels) simp_all
  have c: "validDate start \<longrightarrow> weekStartDate start w = (nextDay ^^ ((w - 1) * 7)) start"
    by (simp add: weekStartDate_def setDate_funpow)
  from a[of maxDur] a[of "of_nat n"] b c show ?thesis
    by (simp add: groupOk_def del: upt_Suc)
qed

lemma example_grid:
  "timelineGroups formatMonthEs 6 (projectStartDate midFebruary) =
     [\<lparr>monthLabel = ''marzo de 2025'', weeks = [1, 2, 3, 4, 5]\<rparr>,
      \<lparr>monthLabel = ''abril de 2025'', weeks = [6]\<rparr>]"
  by code_simp

lemma example_start: "projectStartDate midFebruary = \<lparr>fullYear = 2025, month = 2, dayOfMonth = 1\<rparr>"
  by (simp add: projectStartDate_def midFebruary_def)

text \<open>
  Rendered in the middle of February 2025, a grid of 6 weeks starts on 1 March; weeks
  1 to 5 fall in March and week 6, which starts 35 days later, in April.
\<close>

theorem timeline_grid_witness:
  "concat (map weeks (timelineGroups formatMonthEs 6 (projectStartDate midFebruary))) =
     [1, 2, 3, 4, 5, 6] \<and>
   \<lparr>monthLabel = ''abril de 2025'', weeks = [6]\<rparr>
     \<in> set (timelineGroups formatMonthEs 6 (projectStartDate midFebruary)) \<and>
   formatMonthEs (weekStartDate (projectStartDate midFebruary) 6) = ''abril de 2025'' \<and>
   validDate (projectStartDate midFebruary) \<and>
   weekStartDate (projectStartDate midFebruary) 6 = (nextDay ^^ 35) (projectStartDate midFebruary)"
proof -
  note t = timeline_grid[of formatMonthEs 6 "projectStartDate midFebruary" 6 6]
  have v: "validDate (projectStartDate midFebruary)"
    by (simp add: example_start validDate_def daysInMonth_def)
  have m: "\<lparr>monthLabel = ''abril de 2025'', weeks = [6]\<rparr>
     \<in> set (timelineGroups formatMonthEs 6 (projectStartDate midFebruary))"
    by (simp add: example_grid)
  from t have "concat (map weeks (timelineGroups formatMonthEs 6 (projectStartDate midFebruary))) =
     [1 ..< Suc (nat \<lfloor>6 :: rat\<rfloor>)]"
    by (rule conjunct1)
  moreover have "[1 ..< Suc (nat \<lfloor>6 :: rat\<rfloor>)] = [1, 2, 3, 4, 5, 6]"
    by (simp add: upt_rec)
  ultimately have a: "concat (map weeks (timelineGroups formatMonthEs 6 (projectStartDate midFebruary))) =
     [1, 2, 3, 4, 5, 6]"
    by simp
  from t m have "\<forall>w \<in> set (weeks \<lparr>monthLabel = ''abril de 2025'', weeks = [6]\<rparr>).
      monthLabel \<lparr>monthLabel = ''abril de 2025'', weeks = [6]\<rparr> =
        formatMonthEs (weekStartDate (projectStartDate midFebruary) w)"
    by blast
  then have b: "formatMonthEs (weekStartDate (projectStartDate midFebruary) 6) = ''abril de 2025''"
    by simp
  from t v have "weekStartDate (projectStartDate midFebruary) 6 =
      (nextDay ^^ ((6 - 1) * 7)) (projectStartDate midFebruary)"
    by blast
  then have c: "weekStartDate (projectStartDate midFebruary) 6 =
      (nextDay ^^ 35) (projectStartDate midFebruary)"
    by simp
  from a m b v c show ?thesis
    by blast
qed

section \<open>Properties of the application shell\<close>





end
